theory Spec2Isabelle
  imports Main
begin

section \<open>Python strings\<close>

text \<open>
  A Python \<open>str\<close> is modelled as a \<open>string\<close> whose characters are the code points
  below 256. \<open>whitespace\<close> lists the characters of that range for which
  \<open>str.isspace\<close> holds; \<open>str.strip()\<close> without an argument removes exactly those
  from both ends.
\<close>

definition whitespace :: "char list" where
  "whitespace =
     [CHR 0x09, CHR 0x0A, CHR 0x0B, CHR 0x0C, CHR 0x0D, CHR 0x1C, CHR 0x1D, CHR 0x1E,
      CHR 0x1F, CHR 0x20, CHR 0x85, CHR 0xA0]"

definition isspace :: "char \<Rightarrow> bool" where
  "isspace c = (c \<in> set whitespace)"

definition str_lstrip :: "(char \<Rightarrow> bool) \<Rightarrow> string \<Rightarrow> string" where
  "str_lstrip p s = dropWhile p s"

definition str_rstrip :: "(char \<Rightarrow> bool) \<Rightarrow> string \<Rightarrow> string" where
  "str_rstrip p s = rev (dropWhile p (rev s))"

text \<open>\<open>s.strip()\<close>\<close>

definition str_strip :: "string \<Rightarrow> string" where
  "str_strip s = str_rstrip isspace (str_lstrip isspace s)"

text \<open>\<open>s.rstrip('.')\<close>: every trailing dot goes, not only the last one.\<close>

definition rstrip_dot :: "string \<Rightarrow> string" where
  "rstrip_dot s = str_rstrip (\<lambda>c. c = CHR ''.'') s"

text \<open>\<open>s.endswith(c)\<close> for a single character.\<close>

definition endswith :: "string \<Rightarrow> char \<Rightarrow> bool" where
  "endswith s c = (s \<noteq> [] \<and> last s = c)"

text \<open>\<open>s.lower()\<close> on the code points below 256.\<close>

definition lower_char :: "char \<Rightarrow> char" where
  "lower_char c =
     (let n = (of_char c :: nat)
      in if (65 \<le> n \<and> n \<le> 90) \<or> (192 \<le> n \<and> n \<le> 222 \<and> n \<noteq> 215)
         then char_of (n + 32) else c)"

definition str_lower :: "string \<Rightarrow> string" where
  "str_lower s = map lower_char s"

text \<open>\<open>', '.join(xs)\<close>\<close>

fun join :: "string \<Rightarrow> string list \<Rightarrow> string" where
  "join sep [] = []"
| "join sep [x] = x"
| "join sep (x # y # ys) = x @ sep @ join sep (y # ys)"

section \<open>WHOIS field values\<close>

text \<open>
  A field of a WHOIS record has no fixed shape: it is \<open>None\<close>, a string, a list whose
  items are again arbitrary values, or an object of some other type (a date, a number).
  Of such an object the program only uses its truth value and its \<open>str()\<close>, which
  \<open>PyOther\<close> carries.
\<close>

datatype whois_value =
    PyNone
  | PyStr string
  | PyList "whois_value list"
  | PyOther bool string

text \<open>Python's truth value of a field value, as \<open>or\<close> and \<open>if\<close> test it.\<close>

fun truthy :: "whois_value \<Rightarrow> bool" where
  "truthy PyNone = False"
| "truthy (PyStr s) = (s \<noteq> [])"
| "truthy (PyList xs) = (xs \<noteq> [])"
| "truthy (PyOther b text) = b"

text \<open>\<open>a or b\<close>\<close>

definition py_or :: "whois_value \<Rightarrow> whois_value \<Rightarrow> whois_value" where
  "py_or a b = (if truthy a then a else b)"

text \<open>
  The comprehension of \<open>get_primary_whois_value\<close> keeps an item when
  \<open>isinstance(item, str) and item.strip()\<close>; the item itself is kept, not its
  stripped form.
\<close>

fun keep_item :: "whois_value \<Rightarrow> string option" where
  "keep_item (PyStr item) = (if str_strip item \<noteq> [] then Some item else None)"
| "keep_item _ = None"

fun get_primary_whois_value :: "whois_value \<Rightarrow> string" where
  "get_primary_whois_value PyNone = ''Not Found''"
| "get_primary_whois_value (PyList data) =
     (let filtered_list = List.map_filter keep_item data
      in case filtered_list of [] \<Rightarrow> ''Not Found'' | first # _ \<Rightarrow> first)"
| "get_primary_whois_value (PyStr data) =
     (if str_strip data \<noteq> [] then str_strip data else ''Not Found'')"
| "get_primary_whois_value (PyOther b text) = text"

section \<open>WHOIS records\<close>

text \<open>
  \<open>whois.whois\<close> returns a dictionary from field names to field values. The program
  reads it with \<open>.get(key)\<close>, which gives \<open>None\<close> for a missing key, and tests it
  with \<open>if\<close>, which holds for a dictionary with at least one key.
\<close>

type_synonym whois_entry = "(string \<times> whois_value) list"

definition entry_get :: "whois_entry \<Rightarrow> string \<Rightarrow> whois_value" where
  "entry_get entry key = (case map_of entry key of None \<Rightarrow> PyNone | Some v \<Rightarrow> v)"

text \<open>The value of an \<open>Optional\<close> when Python's \<open>if\<close> takes it for true, else nothing.\<close>

definition if_entry :: "whois_entry option \<Rightarrow> whois_entry option" where
  "if_entry x = (case x of None \<Rightarrow> None | Some entry \<Rightarrow> if entry \<noteq> [] then Some entry else None)"

definition if_str :: "string option \<Rightarrow> string option" where
  "if_str x = (case x of None \<Rightarrow> None | Some s \<Rightarrow> if s \<noteq> [] then Some s else None)"

section \<open>Exceptions and the outside world\<close>

text \<open>
  An exception is an instance of Python's \<open>Exception\<close>: its class, which is the one
  among the classes the program names in an \<open>except\<close> clause that it belongs to,
  \<open>AttributeError\<close>, or \<open>Exception\<close> for any other, and its \<open>str()\<close>. The
  classes come from the libraries the program imports.
\<close>

datatype exc_class =
    UnknownTld
  | WhoisCommandFailed
  | PywhoisError
  | socket_timeout
  | NXDOMAIN
  | NoAnswer
  | NoNameservers
  | Timeout
  | AttributeError
  | Exception

datatype pyexc = PyExc exc_class string

fun exc_str :: "pyexc \<Rightarrow> string" where
  "exc_str (PyExc c text) = text"

fun isinstance :: "pyexc \<Rightarrow> exc_class \<Rightarrow> bool" where
  "isinstance (PyExc c text) c' = (c = c' \<or> c' = Exception)"

text \<open>
  The \<open>except\<close> clauses of a \<open>try\<close>, in the order written: the first clause whose
  class the exception is an instance of handles it; with no such clause the exception
  goes on to the caller.
\<close>

fun handle_exc :: "(exc_class \<times> (pyexc \<Rightarrow> 'a)) list \<Rightarrow> pyexc \<Rightarrow> pyexc + 'a" where
  "handle_exc [] exc = Inl exc"
| "handle_exc ((c, handler) # clauses) exc =
     (if isinstance exc c then Inr (handler exc) else handle_exc clauses exc)"

text \<open>
  An \<open>except\<close> clause names its class by an expression, \<open>whois.exceptions.UnknownTld\<close>
  for one, that Python evaluates only when an exception has reached the clause. When
  the module has no such name, the look-up raises \<open>AttributeError\<close>, and this new
  exception leaves the whole \<open>try\<close> statement: the clauses that follow do not see it.
  A clause is given here with the outcome of its look-up.
\<close>

fun class_name :: "exc_class \<Rightarrow> string" where
  "class_name UnknownTld = ''UnknownTld''"
| "class_name WhoisCommandFailed = ''WhoisCommandFailed''"
| "class_name PywhoisError = ''PywhoisError''"
| "class_name socket_timeout = ''timeout''"
| "class_name NXDOMAIN = ''NXDOMAIN''"
| "class_name NoAnswer = ''NoAnswer''"
| "class_name NoNameservers = ''NoNameservers''"
| "class_name Timeout = ''Timeout''"
| "class_name AttributeError = ''AttributeError''"
| "class_name Exception = ''Exception''"

fun handle_exc_lookup ::
  "(bool \<times> exc_class \<times> (pyexc \<Rightarrow> 'a)) list \<Rightarrow> pyexc \<Rightarrow> pyexc + 'a" where
  "handle_exc_lookup [] exc = Inl exc"
| "handle_exc_lookup ((found, c, handler) # clauses) exc =
     (if \<not> found then
        Inl (PyExc AttributeError
               (''module 'whois.exceptions' has no attribute '' @ [CHR 0x27] @ class_name c
                  @ [CHR 0x27]))
      else if isinstance exc c then Inr (handler exc)
      else handle_exc_lookup clauses exc)"

text \<open>
  A record of an answer, of which the program only calls \<open>to_text()\<close>: the call
  returns the text of the record, or raises.
\<close>

datatype rdata = Rdata string | Unprintable pyexc

fun to_text :: "rdata \<Rightarrow> pyexc + string" where
  "to_text (Rdata s) = Inr s"
| "to_text (Unprintable exc) = Inl exc"

text \<open>
  The network and the libraries, as the program sees them:
  \<^item> \<open>whois_exceptions c\<close> tells whether the module \<open>whois.exceptions\<close> of the
    installed WHOIS library has the name of the class \<open>c\<close>;
  \<^item> \<open>whois_whois k domain\<close> is what \<open>whois.whois(domain)\<close> does when \<open>k\<close> WHOIS
    queries were made before in this run (two queries of one domain may differ);
  \<^item> \<open>new_resolver\<close> is the exception \<open>dns.resolver.Resolver()\<close> raises, if any;
  \<^item> \<open>resolve domain record_type raise_on_no_answer\<close> is what \<open>resolver.resolve\<close>
    does: an exception, or an answer whose \<open>rrset\<close> is \<open>None\<close> or the records;
  \<^item> \<open>registered_domain fqdn\<close> is what
    \<open>tldextract.extract(fqdn, include_psl_private_domains=True).registered_domain\<close>
    does.
\<close>

record world =
  whois_exceptions :: "exc_class \<Rightarrow> bool"
  whois_whois :: "nat \<Rightarrow> string \<Rightarrow> pyexc + whois_entry"
  new_resolver :: "pyexc option"
  resolve :: "string \<Rightarrow> string \<Rightarrow> bool \<Rightarrow> pyexc + rdata list option"
  registered_domain :: "string \<Rightarrow> pyexc + string"

text \<open>\<open>f"'{s}'"\<close>\<close>

definition quoted :: "string \<Rightarrow> string" where
  "quoted s = [CHR 0x27] @ s @ [CHR 0x27]"

section \<open>The WHOIS client\<close>

text \<open>
  Every function that prints returns the lines it printed together with its value; a
  function that raised would return \<open>Inl\<close>.
\<close>

definition get_whois_info ::
  "world \<Rightarrow> nat \<Rightarrow> string \<Rightarrow> pyexc + (string list \<times> whois_entry option)" where
  "get_whois_info w k domain =
     (case whois_whois w k domain of
        Inr entry \<Rightarrow> Inr ([], Some entry)
      | Inl exc \<Rightarrow>
          handle_exc_lookup
            [(whois_exceptions w UnknownTld, UnknownTld, \<lambda>e.
                ([''Warning: WHOIS lookup failed for '' @ quoted domain @ ''. Unknown TLD.''],
                 None)),
             (whois_exceptions w WhoisCommandFailed, WhoisCommandFailed, \<lambda>e.
                ([''Warning: WHOIS command execution failed for '' @ quoted domain @ '': ''
                    @ exc_str e],
                 None)),
             (whois_exceptions w PywhoisError, PywhoisError, \<lambda>e.
                ([''Warning: WHOIS lookup error for '' @ quoted domain @ '': '' @ exc_str e],
                 None)),
             (True, socket_timeout, \<lambda>e.
                ([''Warning: WHOIS lookup for '' @ quoted domain @ '' timed out.''], None)),
             (True, Exception, \<lambda>e.
                ([''Warning: An unexpected error occurred during WHOIS lookup for ''
                    @ quoted domain @ '': '' @ exc_str e],
                 None))]
            exc)"

section \<open>The DNS client\<close>

text \<open>
  Lines 51 to 59: the probe for a CNAME record. The body of its \<open>try\<close> gives the
  error message or raises; \<open>cname_probe\<close> gives the message, or the exception that
  \<open>except (NoAnswer, NXDOMAIN)\<close> lets through.
\<close>

definition cname_probe_body :: "world \<Rightarrow> string \<Rightarrow> string \<Rightarrow> pyexc + string" where
  "cname_probe_body w domain record_type =
     (case resolve w domain ''CNAME'' True of
        Inl exc \<Rightarrow> Inl exc
      | Inr cname_answer \<Rightarrow>
          (case cname_answer of
             None \<Rightarrow> Inr (''No '' @ record_type @ '' records found.'')
           | Some [] \<Rightarrow> Inr (''No '' @ record_type @ '' records found.'')
           | Some (first # rest) \<Rightarrow>
               (case to_text first of
                  Inl exc \<Rightarrow> Inl exc
                | Inr cname_text \<Rightarrow>
                    Inr (''No direct '' @ record_type @ '' records found, but found CNAME: ''
                         @ rstrip_dot cname_text))))"

definition cname_probe :: "world \<Rightarrow> string \<Rightarrow> string \<Rightarrow> pyexc + string" where
  "cname_probe w domain record_type =
     (case cname_probe_body w domain record_type of
        Inr error_msg \<Rightarrow> Inr error_msg
      | Inl exc \<Rightarrow>
          handle_exc
            [(NoAnswer, \<lambda>e. ''No '' @ record_type @ '' records found.''),
             (NXDOMAIN, \<lambda>e. ''No '' @ record_type @ '' records found.'')]
            exc)"

text \<open>
  The loop of lines 65 to 67, from the records still to come and the list \<open>records\<close>
  so far. When \<open>to_text()\<close> raises, the loop ends with the exception, and \<open>records\<close>
  keeps what was appended before.
\<close>

fun append_records :: "rdata list \<Rightarrow> string list \<Rightarrow> (string list \<times> pyexc) + string list" where
  "append_records [] records = Inr records"
| "append_records (rdata # rest) records =
     (case to_text rdata of
        Inl exc \<Rightarrow> Inl (records, exc)
      | Inr record_text \<Rightarrow> append_records rest (records @ [rstrip_dot record_text]))"

text \<open>
  The body of the \<open>try\<close>, lines 42 to 67. It leaves by the \<open>return\<close> of line 62, or
  falls through to line 82 with the records of the loop, or raises: then it gives the
  exception together with \<open>records\<close> as it is at that moment.
\<close>

datatype dns_flow =
    Returned "string list \<times> string option"
  | Fell_through "string list"

definition dns_try_body ::
  "world \<Rightarrow> string \<Rightarrow> string \<Rightarrow> (string list \<times> pyexc) + dns_flow" where
  "dns_try_body w domain record_type =
     (case new_resolver w of
        Some exc \<Rightarrow> Inl ([], exc)
      | None \<Rightarrow>
          (case resolve w domain record_type False of
             Inl exc \<Rightarrow> Inl ([], exc)
           | Inr answer \<Rightarrow>
               (case answer of
                  None \<Rightarrow>
                    (if record_type = ''NS'' then
                       (case cname_probe w domain record_type of
                          Inl exc \<Rightarrow> Inl ([], exc)
                        | Inr error_msg \<Rightarrow> Inr (Returned ([], Some error_msg)))
                     else Inr (Returned ([], Some (''No '' @ record_type @ '' records found.''))))
                | Some rrset \<Rightarrow>
                    (case append_records rrset [] of
                       Inl (records, exc) \<Rightarrow> Inl (records, exc)
                     | Inr records \<Rightarrow> Inr (Fell_through records)))))"

text \<open>Lines 82 to 85.\<close>

definition dns_result :: "string \<Rightarrow> string list \<Rightarrow> string option \<Rightarrow> string list \<times> string option" where
  "dns_result record_type records error_msg =
     (if records = [] \<and> if_str error_msg = None
      then (records, Some (''No '' @ record_type @ '' records found (or query failed silently).''))
      else (records, error_msg))"

definition get_dns_records ::
  "world \<Rightarrow> string \<Rightarrow> string \<Rightarrow> pyexc + (string list \<times> string option)" where
  "get_dns_records w domain record_type =
     (case dns_try_body w domain record_type of
        Inr (Returned result) \<Rightarrow> Inr result
      | Inr (Fell_through records) \<Rightarrow> Inr (dns_result record_type records None)
      | Inl (records, exc) \<Rightarrow>
          (case handle_exc
              [(NXDOMAIN, \<lambda>e. ''Domain '' @ quoted domain @ '' does not exist (NXDOMAIN).''),
               (NoAnswer, \<lambda>e.
                  ''No '' @ record_type @ '' records found for '' @ quoted domain @ ''.''),
               (NoNameservers, \<lambda>e.
                  ''Could not contact nameservers for '' @ quoted domain @ ''.''),
               (Timeout, \<lambda>e.
                  ''DNS query for '' @ record_type @ '' records of '' @ quoted domain
                    @ '' timed out.''),
               (Exception, \<lambda>e.
                  ''An unexpected DNS error occurred for '' @ quoted domain @ '' (''
                    @ record_type @ ''): '' @ exc_str e)]
              exc
           of Inl exc' \<Rightarrow> Inl exc'
            | Inr error_msg \<Rightarrow> Inr (dns_result record_type records (Some error_msg))))"

section \<open>The domain extractor\<close>

definition get_registrable_domain ::
  "world \<Rightarrow> string \<Rightarrow> pyexc + (string list \<times> string option)" where
  "get_registrable_domain w fqdn =
     (if fqdn = [] then Inr ([], None)
      else
        (case registered_domain w fqdn of
           Inr ext_registered_domain \<Rightarrow>
             (if ext_registered_domain \<noteq> [] then Inr ([], Some ext_registered_domain)
              else Inr ([''Warning: Could not extract registrable domain from '' @ quoted fqdn],
                        None))
         | Inl exc \<Rightarrow>
             handle_exc
               [(Exception, \<lambda>e.
                   ([''Error using tldextract on '' @ fqdn @ '': '' @ exc_str e], None))]
               exc))"

section \<open>The orchestrator\<close>

text \<open>
  What \<open>main\<close> has in its variables when it ends (\<open>registrant\<close>, \<open>registrar\<close>,
  \<open>nameservers\<close>, \<open>ns_error_msg\<close>, \<open>first_nameserver\<close>, \<open>ns_registrar_info\<close>),
  and the lines it printed.
\<close>

record report =
  domain_registrant :: string
  domain_registrar :: string
  nameserver_list :: "string list"
  nameserver_error :: "string option"
  anchor_nameserver :: "string option"
  hosting_provider :: string
  stdout :: "string list"

text \<open>Lines 148 to 173: registrant and registrar from the WHOIS record of the domain.\<close>

definition whois_fields :: "whois_entry option \<Rightarrow> string \<times> string" where
  "whois_fields domain_whois =
     (case if_entry domain_whois of
        Some entry \<Rightarrow>
          (let registrant_name =
                 get_primary_whois_value
                   (py_or (entry_get entry ''name'') (entry_get entry ''registrant_name''));
               registrant_org =
                 get_primary_whois_value
                   (py_or (entry_get entry ''org'')
                      (entry_get entry ''registrant_organization''));
               registrant =
                 (if registrant_name \<noteq> ''Not Found'' then registrant_name
                  else if registrant_org \<noteq> ''Not Found'' then registrant_org
                  else ''Not Found'');
               registrar = get_primary_whois_value (entry_get entry ''registrar'');
               registrar =
                 (if registrar = ''Not Found'' then
                    (let url = get_primary_whois_value (entry_get entry ''registrar_url'')
                     in if url \<noteq> ''Not Found'' then ''URL: '' @ url else registrar)
                  else registrar)
           in (registrant, registrar))
      | None \<Rightarrow> (''WHOIS Lookup Failed'', ''WHOIS Lookup Failed''))"

text \<open>Lines 181 to 189: the line printed for the nameservers, and the first of them.\<close>

definition pick_nameserver :: "string list \<Rightarrow> string option \<Rightarrow> string list \<times> string option" where
  "pick_nameserver nameservers ns_error_msg =
     (case if_str ns_error_msg of
        Some msg \<Rightarrow> ([''Error: '' @ msg], None)
      | None \<Rightarrow>
          (case nameservers of
             first # rest \<Rightarrow> ([''Nameservers: '' @ join '', '' nameservers], Some first)
           | [] \<Rightarrow> ([''No nameservers identified.''], None)))"

text \<open>
  Lines 194 to 213: the hosting provider, from the WHOIS record of the domain that owns
  the first nameserver. This WHOIS query is the second of the run.
\<close>

definition infer_provider :: "world \<Rightarrow> string option \<Rightarrow> pyexc + (string list \<times> string)" where
  "infer_provider w first_nameserver =
     (case if_str first_nameserver of
        Some ns \<Rightarrow>
          (case get_registrable_domain w ns of
             Inl exc \<Rightarrow> Inl exc
           | Inr (out1, ns_owner_domain) \<Rightarrow>
               (case if_str ns_owner_domain of
                  Some owner \<Rightarrow>
                    (case get_whois_info w 1 owner of
                       Inl exc \<Rightarrow> Inl exc
                     | Inr (out2, ns_domain_whois) \<Rightarrow>
                         (case if_entry ns_domain_whois of
                            Some entry \<Rightarrow>
                              (let ns_registrar_info =
                                     get_primary_whois_value (entry_get entry ''registrar'')
                               in if ns_registrar_info = ''Not Found'' then
                                    (let org = get_primary_whois_value (entry_get entry ''org'')
                                     in if org \<noteq> ''Not Found''
                                        then Inr (out1 @ out2,
                                               ''Owner Org: '' @ org @ '' (Registrar Not Found)'')
                                        else Inr (out1 @ out2, ns_registrar_info))
                                  else Inr (out1 @ out2, ns_registrar_info))
                          | None \<Rightarrow> Inr (out1 @ out2, ''WHOIS Lookup Failed for '' @ owner)))
                | None \<Rightarrow>
                    Inr (out1, ''Could not determine owner domain from '' @ quoted ns @ ''.'')))
      | None \<Rightarrow> Inr ([], ''Skipped (No nameserver found).''))"

text \<open>
  The variables of \<open>main\<close> at its end and everything it printed, in the order of the
  \<open>print\<close> calls: the banner, the warnings of the first WHOIS query (\<open>out1\<close>), the
  registrant and registrar lines, the nameserver line, the warnings of the extraction
  and of the second WHOIS query (\<open>out3\<close>), the provider line and the footer.
\<close>

definition final_report ::
  "string \<Rightarrow> string list \<Rightarrow> whois_entry option \<Rightarrow> string list \<Rightarrow> string option
   \<Rightarrow> string list \<Rightarrow> string \<Rightarrow> report" where
  "final_report domain_to_check out1 domain_whois nameservers ns_error_msg out3
     ns_registrar_info =
     \<lparr>domain_registrant = fst (whois_fields domain_whois),
      domain_registrar = snd (whois_fields domain_whois),
      nameserver_list = nameservers,
      nameserver_error = ns_error_msg,
      anchor_nameserver = snd (pick_nameserver nameservers ns_error_msg),
      hosting_provider = ns_registrar_info,
      stdout =
        [''--- Checking Domain: '' @ domain_to_check @ '' ---'' @ [CHR 0x0A]]
        @ out1
        @ [''Domain Registrant: '' @ fst (whois_fields domain_whois),
           ''Domain Registrar: '' @ snd (whois_fields domain_whois)]
        @ fst (pick_nameserver nameservers ns_error_msg)
        @ out3
        @ [''Inferred DNS Hosting Provider: '' @ ns_registrar_info,
           [CHR 0x0A] @ ''--- Check Complete for: '' @ domain_to_check @ '' ---'']\<rparr>"

text \<open>
  \<open>main\<close>, from the domain given on the command line. The WHOIS query of the domain is
  the first of the run.
\<close>

definition main :: "world \<Rightarrow> string \<Rightarrow> pyexc + report" where
  "main w domain =
     (case get_whois_info w 0 (str_strip (str_lower domain)) of
        Inl exc \<Rightarrow> Inl exc
      | Inr (out1, domain_whois) \<Rightarrow>
          (case get_dns_records w (str_strip (str_lower domain)) ''NS'' of
             Inl exc \<Rightarrow> Inl exc
           | Inr (nameservers, ns_error_msg) \<Rightarrow>
               (case infer_provider w (snd (pick_nameserver nameservers ns_error_msg)) of
                  Inl exc \<Rightarrow> Inl exc
                | Inr (out3, ns_registrar_info) \<Rightarrow>
                    Inr (final_report (str_strip (str_lower domain)) out1 domain_whois
                           nameservers ns_error_msg out3 ns_registrar_info))))"

section \<open>Sample worlds\<close>

text \<open>
  In the first worlds the module \<open>whois.exceptions\<close> has every name that the program
  looks up in it.
\<close>

text \<open>A world in which every query fails: WHOIS times out and the domain does not exist.\<close>

definition world_down :: world where
  "world_down =
     \<lparr>whois_exceptions = (\<lambda>c. True),
      whois_whois = (\<lambda>k domain. Inl (PyExc socket_timeout ''timed out'')),
      new_resolver = None,
      resolve = (\<lambda>domain record_type raise_on_no_answer. Inl (PyExc NXDOMAIN ''no such domain'')),
      registered_domain = (\<lambda>fqdn. Inr [])\<rparr>"

text \<open>
  A world in which every query succeeds: the domain has two nameservers, and the owner
  of the first has a WHOIS record without a registrar.
\<close>

definition world_up :: world where
  "world_up =
     \<lparr>whois_exceptions = (\<lambda>c. True),
      whois_whois = (\<lambda>k domain.
        if k = 0 then
          Inr [(''name'', PyList [PyStr [], PyStr ''  '', PyStr ''Acme Inc.'']),
               (''registrar'', PyStr '' Example Registrar '')]
        else Inr [(''registrar'', PyNone), (''org'', PyStr ''DNS Host Ltd'')]),
      new_resolver = None,
      resolve = (\<lambda>domain record_type raise_on_no_answer.
        if record_type = ''NS''
        then Inr (Some [Rdata ''ns1.dnshost.net.'', Rdata ''ns2.dnshost.net.''])
        else Inl (PyExc NoAnswer ''no answer'')),
      registered_domain = (\<lambda>fqdn.
        if fqdn = ''ns1.dnshost.net'' then Inr ''dnshost.net'' else Inr [])\<rparr>"

text \<open>Worlds in which the domain has no NS record: with a CNAME, and without one.\<close>

definition world_cname :: world where
  "world_cname =
     \<lparr>whois_exceptions = (\<lambda>c. True),
      whois_whois = (\<lambda>k domain. Inl (PyExc UnknownTld [])),
      new_resolver = None,
      resolve = (\<lambda>domain record_type raise_on_no_answer.
        if record_type = ''CNAME'' then Inr (Some [Rdata ''target.example.net.''])
        else Inr None),
      registered_domain = (\<lambda>fqdn. Inr [])\<rparr>"

definition world_nocname :: world where
  "world_nocname =
     \<lparr>whois_exceptions = (\<lambda>c. True),
      whois_whois = (\<lambda>k domain. Inl (PyExc UnknownTld [])),
      new_resolver = None,
      resolve = (\<lambda>domain record_type raise_on_no_answer.
        if record_type = ''CNAME'' then Inl (PyExc NoAnswer ''no answer'') else Inr None),
      registered_domain = (\<lambda>fqdn. Inr [])\<rparr>"

text \<open>A world in which the resolver answers with a result set that has no record.\<close>

definition world_silent :: world where
  "world_silent =
     \<lparr>whois_exceptions = (\<lambda>c. True),
      whois_whois = (\<lambda>k domain. Inl (PyExc UnknownTld [])),
      new_resolver = None,
      resolve = (\<lambda>domain record_type raise_on_no_answer. Inr (Some [])),
      registered_domain = (\<lambda>fqdn. Inr [])\<rparr>"

text \<open>
  A world in which the second of two NS records cannot be rendered: its \<open>to_text()\<close>
  raises.
\<close>

definition world_garbled :: world where
  "world_garbled =
     \<lparr>whois_exceptions = (\<lambda>c. True),
      whois_whois = (\<lambda>k domain. Inl (PyExc UnknownTld [])),
      new_resolver = None,
      resolve = (\<lambda>domain record_type raise_on_no_answer.
        Inr (Some [Rdata ''ns1.dnshost.net.'', Unprintable (PyExc Exception ''bad record'')])),
      registered_domain = (\<lambda>fqdn. Inr [])\<rparr>"

text \<open>
  A world with the library that \<open>setup.py\<close> names, python-whois, whose function
  \<open>whois.whois\<close> the program calls: its module \<open>whois.exceptions\<close> has
  \<open>PywhoisError\<close> but no \<open>UnknownTld\<close> (the class is called \<open>UnknownTldError\<close>
  there). The WHOIS query times out.
\<close>

definition world_python_whois :: world where
  "world_python_whois =
     \<lparr>whois_exceptions = (\<lambda>c. c = PywhoisError),
      whois_whois = (\<lambda>k domain. Inl (PyExc socket_timeout ''timed out'')),
      new_resolver = None,
      resolve = (\<lambda>domain record_type raise_on_no_answer. Inl (PyExc NXDOMAIN ''no such domain'')),
      registered_domain = (\<lambda>fqdn. Inr [])\<rparr>"

section \<open>Properties of the string helpers\<close>

lemma str_rstrip_last: "str_rstrip p s \<noteq> [] \<Longrightarrow> \<not> p (last (str_rstrip p s))"
proof -
  assume ne: "str_rstrip p s \<noteq> []"
  then have d: "dropWhile p (rev s) \<noteq> []"
    by (simp add: str_rstrip_def)
  then have "\<not> p (hd (dropWhile p (rev s)))"
    by (rule hd_dropWhile)
  with d show ?thesis
    by (simp add: str_rstrip_def last_rev)
qed






section \<open>Properties of the WHOIS client\<close>

lemma get_whois_info_raised:
  assumes "whois_exceptions w UnknownTld" and "whois_exceptions w WhoisCommandFailed"
    and "whois_exceptions w PywhoisError"
    and "whois_whois w k domain = Inl exc"
  shows "\<exists>line. get_whois_info w k domain = Inr ([line], None)"
  using assms by (cases exc) (auto simp: get_whois_info_def)

lemma get_whois_info_lookup_fails:
  assumes "\<not> whois_exceptions w UnknownTld" and "whois_whois w k domain = Inl exc"
  shows "get_whois_info w k domain
         = Inl (PyExc AttributeError (''module 'whois.exceptions' has no attribute '' @ quoted ''UnknownTld''))"
  using assms by (simp add: get_whois_info_def quoted_def)

lemma get_whois_info_Some:
  assumes "get_whois_info w k domain = Inr (out, Some entry)"
  shows "whois_whois w k domain = Inr entry"
proof (cases "whois_whois w k domain")
  case (Inl exc)
  with assms show ?thesis
    by (cases exc) (auto simp: get_whois_info_def split: if_splits)
next
  case (Inr e)
  with assms show ?thesis by (simp add: get_whois_info_def)
qed

text \<open>
  Claim C2. The claim is that \<open>get_whois_info\<close> returns \<open>None\<close> and never raises,
  whatever failure the WHOIS query meets. It holds when the module \<open>whois.exceptions\<close>
  has the three names that the \<open>except\<close> clauses look up
  (\<open>get_whois_info_raised\<close>). With the library whose \<open>whois.whois\<close> the program
  calls, the first look-up fails, and every failure of the query leaves the function as
  an \<open>AttributeError\<close> (\<open>get_whois_info_lookup_fails\<close>): here for a query that
  times out.
\<close>

theorem get_whois_info_raises_attribute_error:
  "whois_whois world_python_whois 0 ''example.com'' = Inl (PyExc socket_timeout ''timed out'')
   \<and> get_whois_info world_python_whois 0 ''example.com''
     = Inl (PyExc AttributeError (''module 'whois.exceptions' has no attribute '' @ quoted ''UnknownTld''))"
  by code_simp

section \<open>Properties of the DNS client\<close>

lemma append_records_Inr:
  "append_records rrset acc = Inr records
   \<Longrightarrow> \<exists>rendered. records = acc @ map rstrip_dot rendered \<and> length rendered = length rrset"
proof (induction rrset arbitrary: acc)
  case Nil
  then show ?case by simp
next
  case (Cons rdata rest)
  show ?case
  proof (cases "to_text rdata")
    case (Inl exc)
    with Cons.prems show ?thesis by simp
  next
    case (Inr record_text)
    with Cons.prems have "append_records rest (acc @ [rstrip_dot record_text]) = Inr records"
      by simp
    from Cons.IH [OF this] obtain rendered where
      "records = (acc @ [rstrip_dot record_text]) @ map rstrip_dot rendered"
      and "length rendered = length rest"
      by blast
    then have "records = acc @ map rstrip_dot (record_text # rendered)
               \<and> length (record_text # rendered) = length (rdata # rest)"
      by simp
    then show ?thesis by blast
  qed
qed

lemma append_records_Inl:
  "append_records rrset acc = Inl (records, exc)
   \<Longrightarrow> \<exists>rendered. records = acc @ map rstrip_dot rendered"
proof (induction rrset arbitrary: acc)
  case Nil
  then show ?case by simp
next
  case (Cons rdata rest)
  show ?case
  proof (cases "to_text rdata")
    case (Inl e)
    with Cons.prems have "records = acc @ map rstrip_dot []" by simp
    then show ?thesis by blast
  next
    case (Inr record_text)
    with Cons.prems have
      "append_records rest (acc @ [rstrip_dot record_text]) = Inl (records, exc)"
      by simp
    from Cons.IH [OF this] obtain rendered where
      "records = (acc @ [rstrip_dot record_text]) @ map rstrip_dot rendered"
      by blast
    then have "records = acc @ map rstrip_dot (record_text # rendered)"
      by simp
    then show ?thesis by blast
  qed
qed

lemma cname_probe_body_message:
  "cname_probe_body w domain record_type = Inr msg \<Longrightarrow> msg \<noteq> []"
  by (auto simp: cname_probe_body_def split: sum.splits option.splits list.splits)

lemma cname_probe_message:
  assumes "cname_probe w domain record_type = Inr msg"
  shows "msg \<noteq> []"
proof (cases "cname_probe_body w domain record_type")
  case (Inl exc)
  with assms show ?thesis
    by (cases exc) (auto simp: cname_probe_def split: if_splits)
next
  case (Inr m)
  with assms have "m = msg" by (simp add: cname_probe_def)
  with Inr show ?thesis using cname_probe_body_message by blast
qed

lemma dns_try_body_returned:
  assumes "dns_try_body w domain record_type = Inr (Returned result)"
  shows "\<exists>msg. result = ([], Some msg) \<and> msg \<noteq> []"
proof (cases "record_type = ''NS''")
  case True
  with assms obtain msg where "cname_probe w domain record_type = Inr msg"
    and "result = ([], Some msg)"
    by (auto simp: dns_try_body_def split: option.splits sum.splits)
  then show ?thesis using cname_probe_message by blast
next
  case False
  with assms show ?thesis
    by (auto simp: dns_try_body_def split: option.splits sum.splits)
qed

lemma dns_try_body_fell_through:
  assumes "dns_try_body w domain record_type = Inr (Fell_through records)"
  shows "\<exists>rendered. records = map rstrip_dot rendered"
proof -
  from assms obtain rrset where "append_records rrset [] = Inr records"
    by (auto simp: dns_try_body_def split: option.splits sum.splits if_splits)
  from append_records_Inr [OF this] show ?thesis by auto
qed

lemma dns_try_body_raised:
  assumes "dns_try_body w domain record_type = Inl (records, exc)"
  shows "\<exists>rendered. records = map rstrip_dot rendered"
proof (cases "records = []")
  case True
  then have "records = map rstrip_dot []" by simp
  then show ?thesis by blast
next
  case False
  with assms obtain rrset where "append_records rrset [] = Inl (records, exc)"
    by (auto simp: dns_try_body_def split: option.splits sum.splits if_splits)
  from append_records_Inl [OF this] show ?thesis by auto
qed

lemma get_dns_records_raised:
  "dns_try_body w domain record_type = Inl (records, exc)
   \<Longrightarrow> \<exists>msg. get_dns_records w domain record_type = Inr (records, Some msg) \<and> msg \<noteq> []"
  by (cases exc) (auto simp: get_dns_records_def dns_result_def if_str_def)

text \<open>
  The two ways \<open>get_dns_records\<close> ends: with a message that is not empty, or without a
  message and with at least one record. Either way every record is the text of some
  record stripped of its trailing dots.
\<close>

lemma get_dns_records_cases:
  "\<exists>rendered.
     (\<exists>msg. get_dns_records w domain record_type = Inr (map rstrip_dot rendered, Some msg)
            \<and> msg \<noteq> [])
     \<or> (rendered \<noteq> []
        \<and> get_dns_records w domain record_type = Inr (map rstrip_dot rendered, None))"
proof (cases "dns_try_body w domain record_type")
  case (Inl raised)
  obtain records exc where "raised = (records, exc)" by (cases raised)
  with Inl have b: "dns_try_body w domain record_type = Inl (records, exc)" by simp
  from dns_try_body_raised [OF b] obtain rendered where "records = map rstrip_dot rendered"
    by blast
  with get_dns_records_raised [OF b] show ?thesis by blast
next
  case (Inr flow)
  show ?thesis
  proof (cases flow)
    case (Returned result)
    with Inr obtain msg where "result = (map rstrip_dot [], Some msg)" and "msg \<noteq> []"
      using dns_try_body_returned by fastforce
    with Inr Returned have
      "get_dns_records w domain record_type = Inr (map rstrip_dot [], Some msg) \<and> msg \<noteq> []"
      by (simp add: get_dns_records_def)
    then show ?thesis by blast
  next
    case (Fell_through records)
    with Inr obtain rendered where r: "records = map rstrip_dot rendered"
      using dns_try_body_fell_through by blast
    from Inr Fell_through have
      g: "get_dns_records w domain record_type = Inr (dns_result record_type records None)"
      by (simp add: get_dns_records_def)
    show ?thesis
    proof (cases "rendered = []")
      case True
      with r g have
        "get_dns_records w domain record_type
         = Inr (map rstrip_dot [],
                Some (''No '' @ record_type @ '' records found (or query failed silently).''))"
        by (simp add: dns_result_def if_str_def)
      then show ?thesis by blast
    next
      case False
      with r g have
        "get_dns_records w domain record_type = Inr (map rstrip_dot rendered, None)"
        by (simp add: dns_result_def if_str_def)
      with False show ?thesis by blast
    qed
  qed
qed

lemma rstrip_dot_no_trailing_dot: "rstrip_dot s = [] \<or> last (rstrip_dot s) \<noteq> CHR ''.''"
  using str_rstrip_last [of "\<lambda>c. c = CHR ''.''" s] by (auto simp: rstrip_dot_def)

lemma get_dns_records_world_up:
  "get_dns_records world_up ''example.com'' ''NS''
   = Inr ([''ns1.dnshost.net'', ''ns2.dnshost.net''], None)"
  by code_simp

text \<open>
  Claim C3. For every domain and record type \<open>get_dns_records\<close> returns a pair, and
  when the list of records in it is empty the error message is present and is not the
  empty string. The witness is the case where no specific message was set: the result
  set has no record, and the generic message of line 83 is returned.
\<close>

theorem get_dns_records_empty_has_message:
  "\<exists>records error_msg.
     get_dns_records w domain record_type = Inr (records, error_msg)
     \<and> (records = [] \<longrightarrow> (\<exists>msg. error_msg = Some msg \<and> msg \<noteq> []))"
  using get_dns_records_cases [of w domain record_type] by fastforce

theorem get_dns_records_empty_has_message_witness:
  "\<exists>msg. get_dns_records world_silent ''example.com'' ''NS'' = Inr ([], Some msg) \<and> msg \<noteq> []"
proof -
  have e: "get_dns_records world_silent ''example.com'' ''NS''
     = Inr ([], Some ''No NS records found (or query failed silently).'')"
    by code_simp
  from get_dns_records_empty_has_message [of world_silent "''example.com''" "''NS''"] e
  show ?thesis by simp
qed

text \<open>
  Claim C4. When the resolver gives no result set for an NS query, \<open>get_dns_records\<close>
  returns no record and a message: if the CNAME query of the same domain gives a record,
  the message ends with the target of the first CNAME record, without its trailing dot;
  if the CNAME query raises \<open>NoAnswer\<close> or \<open>NXDOMAIN\<close>, or gives no record, the message
  is the plain one.
\<close>

theorem ns_without_records_reports_cname:
  assumes "new_resolver w = None" and "resolve w domain ''NS'' False = Inr None"
  shows "(resolve w domain ''CNAME'' True = Inr (Some (Rdata target # rest)) \<longrightarrow>
            get_dns_records w domain ''NS''
            = Inr ([], Some (''No direct NS records found, but found CNAME: ''
                             @ rstrip_dot target)))
       \<and> (resolve w domain ''CNAME'' True = Inl (PyExc NoAnswer reason)
          \<or> resolve w domain ''CNAME'' True = Inl (PyExc NXDOMAIN reason)
          \<or> resolve w domain ''CNAME'' True = Inr None
          \<or> resolve w domain ''CNAME'' True = Inr (Some []) \<longrightarrow>
            get_dns_records w domain ''NS'' = Inr ([], Some ''No NS records found.''))"
  using assms
  by (auto simp: get_dns_records_def dns_try_body_def cname_probe_def cname_probe_body_def)

theorem ns_without_records_reports_cname_witness:
  "get_dns_records world_cname ''example.com'' ''NS''
     = Inr ([], Some ''No direct NS records found, but found CNAME: target.example.net'')
   \<and> get_dns_records world_nocname ''example.com'' ''NS''
     = Inr ([], Some ''No NS records found.'')"
  using ns_without_records_reports_cname
          [where w = world_cname and domain = "''example.com''"
             and target = "''target.example.net.''" and rest = "[]"]
        ns_without_records_reports_cname
          [where w = world_nocname and domain = "''example.com''" and reason = "''no answer''"]
  by (simp add: world_cname_def world_nocname_def rstrip_dot_def str_rstrip_def)

text \<open>
  Claim C5. No record that \<open>get_dns_records\<close> returns ends with a dot.
\<close>

theorem get_dns_records_no_trailing_dot:
  assumes "get_dns_records w domain record_type = Inr (records, error_msg)"
    and "record \<in> set records"
  shows "\<not> endswith record (CHR ''.'')"
proof -
  from get_dns_records_cases [of w domain record_type] assms(1)
  obtain rendered where "records = map rstrip_dot rendered"
    by auto
  with assms(2) obtain raw where "record = rstrip_dot raw"
    by auto
  then show ?thesis
    using rstrip_dot_no_trailing_dot [of raw] by (auto simp: endswith_def)
qed

theorem get_dns_records_no_trailing_dot_witness:
  "get_dns_records world_up ''example.com'' ''NS''
     = Inr ([''ns1.dnshost.net'', ''ns2.dnshost.net''], None)
   \<and> ''ns2.dnshost.net'' \<in> set [''ns1.dnshost.net'', ''ns2.dnshost.net'']
   \<and> \<not> endswith ''ns2.dnshost.net'' (CHR ''.'')"
proof -
  have m: "''ns2.dnshost.net'' \<in> set [''ns1.dnshost.net'', ''ns2.dnshost.net'']"
    by simp
  from get_dns_records_world_up m
    get_dns_records_no_trailing_dot [OF get_dns_records_world_up m]
  show ?thesis by blast
qed

text \<open>
  Claim C10. The claim is that a list of records that is not empty comes without an
  error message. The loop of lines 65 to 67 runs inside the \<open>try\<close>, and no handler
  empties \<open>records\<close>: when \<open>to_text()\<close> raises on the second record, the function
  returns the first record together with the message of \<open>except Exception\<close>.
\<close>

theorem get_dns_records_partial_records_with_error:
  "resolve world_garbled ''example.com'' ''NS'' False
     = Inr (Some [Rdata ''ns1.dnshost.net.'', Unprintable (PyExc Exception ''bad record'')])
   \<and> get_dns_records world_garbled ''example.com'' ''NS''
     = Inr ([''ns1.dnshost.net''],
            Some ''An unexpected DNS error occurred for 'example.com' (NS): bad record'')"
  by code_simp

text \<open>
  When the text of every record of the answer can be had, records and message exclude
  each other.
\<close>

lemma append_records_rendered:
  "\<forall>rdata \<in> set rrset. \<exists>s. rdata = Rdata s \<Longrightarrow> \<exists>records. append_records rrset acc = Inr records"
proof (induction rrset arbitrary: acc)
  case Nil
  then show ?case by simp
next
  case (Cons rdata rest)
  then obtain s where "rdata = Rdata s" by auto
  with Cons show ?case by simp
qed

lemma get_dns_records_exclusive_when_rendered:
  assumes "get_dns_records w domain record_type = Inr (records, error_msg)"
    and "\<forall>rrset. resolve w domain record_type False = Inr (Some rrset)
           \<longrightarrow> (\<forall>rdata \<in> set rrset. \<exists>s. rdata = Rdata s)"
    and "records \<noteq> []"
  shows "error_msg = None"
proof (cases "dns_try_body w domain record_type")
  case (Inl raised)
  obtain recs exc where rr: "raised = (recs, exc)" by (cases raised)
  with Inl have b: "dns_try_body w domain record_type = Inl (recs, exc)" by simp
  have "recs = []"
  proof (rule ccontr)
    assume "recs \<noteq> []"
    with b obtain rrset where r: "resolve w domain record_type False = Inr (Some rrset)"
      and a: "append_records rrset [] = Inl (recs, exc)"
      by (auto simp: dns_try_body_def split: option.splits sum.splits if_splits)
    from r assms(2) have "\<forall>rdata \<in> set rrset. \<exists>s. rdata = Rdata s" by blast
    from append_records_rendered [OF this, of "[]"] a show False by auto
  qed
  with get_dns_records_raised [OF b] assms(1,3) show ?thesis by auto
next
  case (Inr flow)
  show ?thesis
  proof (cases flow)
    case (Returned result)
    with Inr dns_try_body_returned [of w domain record_type result] assms(1,3)
    show ?thesis by (auto simp: get_dns_records_def)
  next
    case (Fell_through recs)
    with Inr assms(1,3) show ?thesis
      by (auto simp: get_dns_records_def dns_result_def split: if_splits)
  qed
qed

section \<open>Properties of the field normalizer\<close>

lemma get_primary_whois_value_examples:
  "get_primary_whois_value (PyList [PyStr [], PyStr ''  '', PyStr ''Acme Inc.'']) = ''Acme Inc.''"
  "get_primary_whois_value PyNone = ''Not Found''"
  "get_primary_whois_value (PyStr ''  Acme  '') = ''Acme''"
  by code_simp+

text \<open>
  Claim C1. For \<open>None\<close> and for a string the function does what the claim says, and
  the three examples of the claim hold (\<open>get_primary_whois_value_examples\<close>). For a
  list the claim is that the first string that is not blank is returned trimmed of
  whitespace, as a lone string is; the comprehension of line 95 strips an item only to
  test it, and line 96 returns the item as it came.
\<close>

theorem get_primary_whois_value_list_item_untrimmed:
  "get_primary_whois_value (PyList [PyStr ''  Acme  '']) = ''  Acme  ''
   \<and> get_primary_whois_value (PyStr ''  Acme  '') = ''Acme''"
  by code_simp




section \<open>Properties of the orchestrator\<close>

lemma get_registrable_domain_cases:
  "(\<exists>out. get_registrable_domain w fqdn = Inr (out, None))
   \<or> (\<exists>owner. owner \<noteq> [] \<and> get_registrable_domain w fqdn = Inr ([], Some owner))"
proof (cases "registered_domain w fqdn")
  case (Inl exc)
  then show ?thesis
    by (cases exc) (simp add: get_registrable_domain_def)
next
  case (Inr d)
  then show ?thesis
    by (cases "d = []") (simp_all add: get_registrable_domain_def)
qed

lemma final_report_fields:
  "domain_registrant (final_report d out1 domain_whois nss err out3 info)
     = fst (whois_fields domain_whois)"
  "domain_registrar (final_report d out1 domain_whois nss err out3 info)
     = snd (whois_fields domain_whois)"
  "nameserver_list (final_report d out1 domain_whois nss err out3 info) = nss"
  "nameserver_error (final_report d out1 domain_whois nss err out3 info) = err"
  "anchor_nameserver (final_report d out1 domain_whois nss err out3 info)
     = snd (pick_nameserver nss err)"
  "hosting_provider (final_report d out1 domain_whois nss err out3 info) = info"
  by (simp_all add: final_report_def)

text \<open>When \<open>main\<close> ends, its report is made of what its three steps returned.\<close>

lemma main_Inr:
  assumes "main w domain = Inr r"
  shows "\<exists>out1 domain_whois nameservers ns_error_msg out3 info.
     get_whois_info w 0 (str_strip (str_lower domain)) = Inr (out1, domain_whois)
     \<and> get_dns_records w (str_strip (str_lower domain)) ''NS'' = Inr (nameservers, ns_error_msg)
     \<and> infer_provider w (snd (pick_nameserver nameservers ns_error_msg)) = Inr (out3, info)
     \<and> r = final_report (str_strip (str_lower domain)) out1 domain_whois nameservers
              ns_error_msg out3 info"
proof (cases "get_whois_info w 0 (str_strip (str_lower domain))")
  case (Inl exc)
  with assms show ?thesis by (simp add: main_def)
next
  case a: (Inr p1)
  obtain out1 domain_whois where p1: "p1 = (out1, domain_whois)" by (cases p1)
  show ?thesis
  proof (cases "get_dns_records w (str_strip (str_lower domain)) ''NS''")
    case (Inl exc)
    with a p1 assms show ?thesis by (simp add: main_def)
  next
    case b: (Inr p2)
    obtain nameservers ns_error_msg where p2: "p2 = (nameservers, ns_error_msg)" by (cases p2)
    show ?thesis
    proof (cases "infer_provider w (snd (pick_nameserver nameservers ns_error_msg))")
      case (Inl exc)
      with a p1 b p2 assms show ?thesis by (simp add: main_def)
    next
      case c: (Inr p3)
      obtain out3 info where p3: "p3 = (out3, info)" by (cases p3)
      from a p1 b p2 c p3 assms have
        "r = final_report (str_strip (str_lower domain)) out1 domain_whois nameservers
               ns_error_msg out3 info"
        by (simp add: main_def)
      with a p1 b p2 c p3 show ?thesis by blast
    qed
  qed
qed

lemma pick_nameserver_error:
  "msg \<noteq> [] \<Longrightarrow> snd (pick_nameserver nameservers (Some msg)) = None"
  by (simp add: pick_nameserver_def if_str_def)

lemma main_world_down:
  "main world_down ''example.com''
   = Inr (final_report ''example.com''
            [''Warning: WHOIS lookup for 'example.com' timed out.''] None []
            (Some ''Domain 'example.com' does not exist (NXDOMAIN).'') []
            ''Skipped (No nameserver found).'')"
  by code_simp

lemma get_whois_info_world_down:
  "get_whois_info world_down 0 (str_strip (str_lower ''example.com''))
   = Inr ([''Warning: WHOIS lookup for 'example.com' timed out.''], None)"
  by code_simp

lemma get_dns_records_world_down:
  "get_dns_records world_down (str_strip (str_lower ''example.com'')) ''NS''
   = Inr ([], Some ''Domain 'example.com' does not exist (NXDOMAIN).'')"
  by code_simp

lemma main_world_up:
  "main world_up ''example.com''
   = Inr (final_report ''example.com'' []
            (Some [(''name'', PyList [PyStr [], PyStr ''  '', PyStr ''Acme Inc.'']),
                   (''registrar'', PyStr '' Example Registrar '')])
            [''ns1.dnshost.net'', ''ns2.dnshost.net''] None []
            ''Owner Org: DNS Host Ltd (Registrar Not Found)'')"
  by code_simp

lemma anchor_world_up:
  "anchor_nameserver
     (final_report ''example.com'' []
            (Some [(''name'', PyList [PyStr [], PyStr ''  '', PyStr ''Acme Inc.'']),
                   (''registrar'', PyStr '' Example Registrar '')])
            [''ns1.dnshost.net'', ''ns2.dnshost.net''] None []
            ''Owner Org: DNS Host Ltd (Registrar Not Found)'')
   = Some ''ns1.dnshost.net''"
  by code_simp

lemma owner_world_up:
  "get_registrable_domain world_up ''ns1.dnshost.net'' = Inr ([], Some ''dnshost.net'')"
  by code_simp

lemma owner_whois_world_up:
  "get_whois_info world_up 1 ''dnshost.net''
   = Inr ([], Some [(''registrar'', PyNone), (''org'', PyStr ''DNS Host Ltd'')])"
  by code_simp

lemma owner_fields_world_up:
  "(if get_primary_whois_value
         (entry_get [(''registrar'', PyNone), (''org'', PyStr ''DNS Host Ltd'')] ''registrar'')
       \<noteq> ''Not Found''
    then get_primary_whois_value
           (entry_get [(''registrar'', PyNone), (''org'', PyStr ''DNS Host Ltd'')] ''registrar'')
    else if get_primary_whois_value
              (entry_get [(''registrar'', PyNone), (''org'', PyStr ''DNS Host Ltd'')] ''org'')
            \<noteq> ''Not Found''
    then ''Owner Org: ''
           @ get_primary_whois_value
               (entry_get [(''registrar'', PyNone), (''org'', PyStr ''DNS Host Ltd'')] ''org'')
           @ '' (Registrar Not Found)''
    else ''Not Found'')
   = ''Owner Org: DNS Host Ltd (Registrar Not Found)''"
  by code_simp

text \<open>
  Claim C6. When the WHOIS query of the domain, the first of the run, returns \<open>None\<close>,
  the registrant and the registrar of the report of \<open>main\<close> are both
  \<open>WHOIS Lookup Failed\<close>.
\<close>

theorem whois_failure_marks_both_fields:
  assumes "get_whois_info w 0 (str_strip (str_lower domain)) = Inr (out, None)"
    and "main w domain = Inr r"
  shows "domain_registrant r = ''WHOIS Lookup Failed''
         \<and> domain_registrar r = ''WHOIS Lookup Failed''"
proof -
  from main_Inr [OF assms(2)] assms(1)
  obtain nameservers ns_error_msg out3 info where
    "r = final_report (str_strip (str_lower domain)) out None nameservers ns_error_msg out3 info"
    by auto
  then show ?thesis
    by (simp add: final_report_fields whois_fields_def if_entry_def)
qed

theorem whois_failure_marks_both_fields_witness:
  "get_whois_info world_down 0 (str_strip (str_lower ''example.com''))
     = Inr ([''Warning: WHOIS lookup for 'example.com' timed out.''], None)
   \<and> (\<exists>r. main world_down ''example.com'' = Inr r
           \<and> domain_registrant r = ''WHOIS Lookup Failed''
           \<and> domain_registrar r = ''WHOIS Lookup Failed'')"
  using get_whois_info_world_down main_world_down
    whois_failure_marks_both_fields [OF get_whois_info_world_down main_world_down]
  by blast

text \<open>
  Claim C8. When the NS query returned an error message or no record, \<open>main\<close> has no
  first nameserver, makes no second WHOIS query, and ends with the provider
  \<open>Skipped (No nameserver found).\<close>
\<close>

theorem no_nameserver_skips_provider:
  assumes "get_whois_info w 0 (str_strip (str_lower domain)) = Inr (out1, domain_whois)"
    and "get_dns_records w (str_strip (str_lower domain)) ''NS'' = Inr (nameservers, ns_error_msg)"
    and "ns_error_msg \<noteq> None \<or> nameservers = []"
  shows "\<exists>r. main w domain = Inr r
           \<and> anchor_nameserver r = None
           \<and> hosting_provider r = ''Skipped (No nameserver found).''"
proof -
  from get_dns_records_cases [of w "str_strip (str_lower domain)" "''NS''"] assms(2,3)
  obtain msg where e: "ns_error_msg = Some msg" "msg \<noteq> []"
    by auto
  then have p: "snd (pick_nameserver nameservers ns_error_msg) = None"
    by (simp add: pick_nameserver_error)
  then have i: "infer_provider w (snd (pick_nameserver nameservers ns_error_msg))
                = Inr ([], ''Skipped (No nameserver found).'')"
    by (simp add: infer_provider_def if_str_def)
  from assms(1,2) i have
    "main w domain = Inr (final_report (str_strip (str_lower domain)) out1 domain_whois
                            nameservers ns_error_msg [] ''Skipped (No nameserver found).'')"
    by (simp add: main_def)
  with p show ?thesis
    by (simp add: final_report_fields)
qed

theorem no_nameserver_skips_provider_witness:
  "get_whois_info world_down 0 (str_strip (str_lower ''example.com''))
     = Inr ([''Warning: WHOIS lookup for 'example.com' timed out.''], None)
   \<and> get_dns_records world_down (str_strip (str_lower ''example.com'')) ''NS''
     = Inr ([], Some ''Domain 'example.com' does not exist (NXDOMAIN).'')
   \<and> (\<exists>r. main world_down ''example.com'' = Inr r
           \<and> anchor_nameserver r = None
           \<and> hosting_provider r = ''Skipped (No nameserver found).'')"
proof -
  have e: "Some ''Domain 'example.com' does not exist (NXDOMAIN).'' \<noteq> None
           \<or> ([] :: string list) = []"
    by simp
  from get_whois_info_world_down get_dns_records_world_down
    no_nameserver_skips_provider [OF get_whois_info_world_down get_dns_records_world_down e]
  show ?thesis by blast
qed

text \<open>
  Claim C7. When \<open>main\<close> has a first nameserver \<open>ns\<close> (a string that is not empty,
  which is what \<open>if first_nameserver\<close> tests), the provider of its report is:
  the \<open>Could not determine\<close> message when \<open>get_registrable_domain\<close> returns
  \<open>None\<close>; the \<open>WHOIS Lookup Failed for\<close> message when the WHOIS query of the owner
  domain, the second of the run, returns \<open>None\<close>; and for a record (a dictionary with
  at least one key, as every record of the library is) the primary value of its
  registrar, or the \<open>Owner Org\<close> message when that is \<open>Not Found\<close> and the primary
  value of its org is not, or else \<open>Not Found\<close>.
\<close>

theorem hosting_provider_from_anchor:
  assumes "main w domain = Inr r" and "anchor_nameserver r = Some ns" and "ns \<noteq> []"
  shows
    "(get_registrable_domain w ns = Inr (out1, None) \<longrightarrow>
        hosting_provider r = ''Could not determine owner domain from '' @ quoted ns @ ''.'')
     \<and> (get_registrable_domain w ns = Inr (out1, Some owner)
        \<and> get_whois_info w 1 owner = Inr (out2, None) \<longrightarrow>
        hosting_provider r = ''WHOIS Lookup Failed for '' @ owner)
     \<and> (get_registrable_domain w ns = Inr (out1, Some owner)
        \<and> get_whois_info w 1 owner = Inr (out2, Some entry) \<and> entry \<noteq> [] \<longrightarrow>
        hosting_provider r =
          (if get_primary_whois_value (entry_get entry ''registrar'') \<noteq> ''Not Found''
           then get_primary_whois_value (entry_get entry ''registrar'')
           else if get_primary_whois_value (entry_get entry ''org'') \<noteq> ''Not Found''
           then ''Owner Org: '' @ get_primary_whois_value (entry_get entry ''org'')
                  @ '' (Registrar Not Found)''
           else ''Not Found''))"
proof -
  from main_Inr [OF assms(1)]
  obtain d out1' domain_whois nameservers ns_error_msg out3 info where
    i: "infer_provider w (snd (pick_nameserver nameservers ns_error_msg)) = Inr (out3, info)"
    and r: "r = final_report d out1' domain_whois nameservers ns_error_msg out3 info"
    by auto
  from r assms(2) have "snd (pick_nameserver nameservers ns_error_msg) = Some ns"
    by (simp add: final_report_fields)
  with i have i': "infer_provider w (Some ns) = Inr (out3, info)"
    by simp
  from r have h: "hosting_provider r = info"
    by (simp add: final_report_fields)
  have o: "owner \<noteq> []" if "get_registrable_domain w ns = Inr (out1, Some owner)"
    using that get_registrable_domain_cases [of w ns] by auto
  have c1: "info = ''Could not determine owner domain from '' @ quoted ns @ ''.''"
    if "get_registrable_domain w ns = Inr (out1, None)"
    using that i' assms(3) by (simp add: infer_provider_def if_str_def)
  have c2: "info = ''WHOIS Lookup Failed for '' @ owner"
    if "get_registrable_domain w ns = Inr (out1, Some owner)"
      and "get_whois_info w 1 owner = Inr (out2, None)"
    using that o i' assms(3) by (simp add: infer_provider_def if_str_def if_entry_def)
  have c3: "info =
          (if get_primary_whois_value (entry_get entry ''registrar'') \<noteq> ''Not Found''
           then get_primary_whois_value (entry_get entry ''registrar'')
           else if get_primary_whois_value (entry_get entry ''org'') \<noteq> ''Not Found''
           then ''Owner Org: '' @ get_primary_whois_value (entry_get entry ''org'')
                  @ '' (Registrar Not Found)''
           else ''Not Found'')"
    if "get_registrable_domain w ns = Inr (out1, Some owner)"
      and "get_whois_info w 1 owner = Inr (out2, Some entry)" and "entry \<noteq> []"
    using that o i' assms(3)
    by (simp add: infer_provider_def if_str_def if_entry_def Let_def split: if_splits)
  from h c1 c2 c3 show ?thesis by blast
qed

theorem hosting_provider_from_anchor_witness:
  "get_registrable_domain world_up ''ns1.dnshost.net'' = Inr ([], Some ''dnshost.net'')
   \<and> get_whois_info world_up 1 ''dnshost.net''
     = Inr ([], Some [(''registrar'', PyNone), (''org'', PyStr ''DNS Host Ltd'')])
   \<and> (\<exists>r. main world_up ''example.com'' = Inr r
           \<and> anchor_nameserver r = Some ''ns1.dnshost.net''
           \<and> hosting_provider r = ''Owner Org: DNS Host Ltd (Registrar Not Found)'')"
proof -
  have n: "''ns1.dnshost.net'' \<noteq> []" by simp
  have e: "[(''registrar'', PyNone), (''org'', PyStr ''DNS Host Ltd'')] \<noteq> []" by simp
  from hosting_provider_from_anchor [OF main_world_up anchor_world_up n,
      of "[]" "''dnshost.net''" "[]" "[(''registrar'', PyNone), (''org'', PyStr ''DNS Host Ltd'')]"]
    owner_world_up owner_whois_world_up e
  have "hosting_provider
     (final_report ''example.com'' []
            (Some [(''name'', PyList [PyStr [], PyStr ''  '', PyStr ''Acme Inc.'']),
                   (''registrar'', PyStr '' Example Registrar '')])
            [''ns1.dnshost.net'', ''ns2.dnshost.net''] None []
            ''Owner Org: DNS Host Ltd (Registrar Not Found)'')
    = ''Owner Org: DNS Host Ltd (Registrar Not Found)''"
    by (simp only: owner_fields_world_up simp_thms)
  with main_world_up anchor_world_up owner_world_up owner_whois_world_up
  show ?thesis by blast
qed

section \<open>When the orchestrator ends\<close>

text \<open>
  With a library whose module \<open>whois.exceptions\<close> has the three names, every step of
  \<open>main\<close> returns, and so does \<open>main\<close>.
\<close>

lemma get_whois_info_returns:
  assumes "whois_exceptions w UnknownTld" and "whois_exceptions w WhoisCommandFailed"
    and "whois_exceptions w PywhoisError"
  shows "\<exists>out r. get_whois_info w k domain = Inr (out, r)"
proof (cases "whois_whois w k domain")
  case (Inl exc)
  from get_whois_info_raised [OF assms Inl] show ?thesis by blast
next
  case (Inr entry)
  then show ?thesis by (simp add: get_whois_info_def)
qed

lemma infer_provider_returns:
  assumes "whois_exceptions w UnknownTld" and "whois_exceptions w WhoisCommandFailed"
    and "whois_exceptions w PywhoisError"
  shows "\<exists>out info. infer_provider w first_nameserver = Inr (out, info)"
proof (cases "if_str first_nameserver")
  case None
  then show ?thesis by (simp add: infer_provider_def)
next
  case (Some ns)
  from get_registrable_domain_cases [of w ns] show ?thesis
  proof
    assume "\<exists>out. get_registrable_domain w ns = Inr (out, None)"
    then obtain out where "get_registrable_domain w ns = Inr (out, None)" ..
    with Some show ?thesis
      by (simp add: infer_provider_def if_str_def)
  next
    assume "\<exists>owner. owner \<noteq> [] \<and> get_registrable_domain w ns = Inr ([], Some owner)"
    then obtain owner where o: "owner \<noteq> []" "get_registrable_domain w ns = Inr ([], Some owner)"
      by blast
    obtain out2 r where g: "get_whois_info w 1 owner = Inr (out2, r)"
      using get_whois_info_returns [OF assms] by blast
    show ?thesis
    proof (cases "if_entry r")
      case None
      with Some o g show ?thesis
        by (simp add: infer_provider_def if_str_def)
    next
      case (Some entry)
      with \<open>if_str first_nameserver = Some ns\<close> o g show ?thesis
        by (simp add: infer_provider_def if_str_def Let_def)
    qed
  qed
qed

lemma main_returns:
  assumes "whois_exceptions w UnknownTld" and "whois_exceptions w WhoisCommandFailed"
    and "whois_exceptions w PywhoisError"
  shows "\<exists>r. main w domain = Inr r"
proof -
  obtain out1 domain_whois where
    a: "get_whois_info w 0 (str_strip (str_lower domain)) = Inr (out1, domain_whois)"
    using get_whois_info_returns [OF assms] by blast
  obtain nameservers ns_error_msg where
    b: "get_dns_records w (str_strip (str_lower domain)) ''NS'' = Inr (nameservers, ns_error_msg)"
    using get_dns_records_cases [of w "str_strip (str_lower domain)" "''NS''"] by blast
  obtain out3 info where
    c: "infer_provider w (snd (pick_nameserver nameservers ns_error_msg)) = Inr (out3, info)"
    using infer_provider_returns [OF assms] by blast
  from a b c show ?thesis
    by (simp add: main_def)
qed

end
